theory Spec2Isabelle
  imports Complex_Main "HOL-Library.Multiset"
begin

section \<open>Data model of the topic module\<close>

text \<open>
  The development follows the topic part of \<^verbatim>\<open>src/lib/subject/index.ts\<close> (lines 167 to 446):
  \<^verbatim>\<open>fetchDetail\<close>, \<^verbatim>\<open>fetchTopicList\<close>, \<^verbatim>\<open>createTopicReply\<close> and \<^verbatim>\<open>scoredUpdateTime\<close>.

  Numbers. Every number that the code reads from a row or from the clock is an integer
  (ids, counters, unix seconds) and is an \<^typ>\<open>int\<close> here; integers are taken to be below
  \<open>2 ^ 53\<close> in magnitude, where a double holds them exactly. The only fractional arithmetic
  is inside \<^verbatim>\<open>scoredUpdateTime\<close>. Its double-precision operations (rounding, division,
  \<^verbatim>\<open>Math.pow\<close>) are a parameter of the model, so that nothing is claimed about a value
  that the machine rounds differently from the real number; NaN is a value of its own,
  and overflow to infinity is left out.
\<close>

datatype Type = group | subject

text \<open>The \<^verbatim>\<open>const enum ReplyState\<close>: rows store the number.\<close>

definition ReplyState_Normal :: int where "ReplyState_Normal = 0"
definition ReplyState_AdminCloseTopic :: int where "ReplyState_AdminCloseTopic = 1"
definition ReplyState_AdminReopen :: int where "ReplyState_AdminReopen = 2"
definition ReplyState_AdminPin :: int where "ReplyState_AdminPin = 3"
definition ReplyState_AdminMerge :: int where "ReplyState_AdminMerge = 4"
definition ReplyState_AdminSilentTopic :: int where "ReplyState_AdminSilentTopic = 5"
definition ReplyState_UserDelete :: int where "ReplyState_UserDelete = 6"
definition ReplyState_AdminDelete :: int where "ReplyState_AdminDelete = 7"

text \<open>
  \<^verbatim>\<open>entity.GroupTopic\<close> and \<^verbatim>\<open>entity.GroupPost\<close>: the declarations live in the entity module, the
  fields are the ones the code reads and writes.
\<close>

record GroupTopic =
  topic_id :: int
  topic_gid :: int
  topic_creatorID :: int
  topic_title :: string
  topic_dateline :: int
  topic_lastpost :: int
  topic_replies :: int
  topic_state :: int
  topic_display :: int

record GroupPost =
  post_id :: int
  post_topicID :: int
  post_uid :: int
  post_related :: int
  post_content :: string
  post_state :: int
  post_dateline :: int

datatype error =
  UnexpectedNotFoundError
  | UnimplementedError
  | EntityNotFoundError
  | QueryFailedError
  | UserNotFoundError

section \<open>scoredUpdateTime\<close>

text \<open>A JavaScript number that is either an integer or NaN.\<close>

datatype number = NaN | Num int

text \<open>\<^verbatim>\<open>Math.trunc\<close>: the integer part, rounding toward zero.\<close>

definition Math_trunc :: "real \<Rightarrow> int" where
  "Math_trunc r = (if 0 \<le> r then \<lfloor>r\<rfloor> else \<lceil>r\<rceil>)"

text \<open>
  The double-precision arithmetic of the engine: \<open>fl\<close> rounds a real number to the
  double that stands for it (the result of \<^verbatim>\<open>+\<close>, \<^verbatim>\<open>-\<close>, \<^verbatim>\<open>*\<close> on doubles is the rounded
  exact result, and a decimal literal is the rounded decimal), \<open>fdiv\<close> is \<^verbatim>\<open>/\<close>, and
  \<open>Math_pow\<close> is \<^verbatim>\<open>Math.pow\<close>, with \<open>None\<close> for NaN.
\<close>

record arith =
  fl :: "real \<Rightarrow> real"
  fdiv :: "real \<Rightarrow> real \<Rightarrow> real"
  Math_pow :: "real \<Rightarrow> real \<Rightarrow> real option"

text \<open>
  The literals \<^verbatim>\<open>0.1\<close> and \<^verbatim>\<open>1.8\<close> are the doubles \<open>fl (1 / 10)\<close> and \<open>fl (9 / 5)\<close>. NaN
  propagates through the division, the multiplication, the subtraction, \<^verbatim>\<open>Math.trunc\<close>
  and \<^verbatim>\<open>Math.min\<close>, so the function returns NaN as soon as the power is NaN.
\<close>

definition scoredUpdateTime :: "arith \<Rightarrow> int \<Rightarrow> Type \<Rightarrow> GroupTopic \<Rightarrow> number" where
  "scoredUpdateTime A timestamp type main_info =
     (if type = group \<and> topic_id main_info \<in> set [364] \<and> topic_replies main_info > 0 then
        (let created_at = topic_dateline main_info;
             created_hours = fdiv A (real_of_int (timestamp - created_at)) 3600;
             gravity = fl A (9 / 5)
         in case Math_pow A (fl A (created_hours + fl A (1 / 10))) gravity of
              None \<Rightarrow> NaN
            | Some pw \<Rightarrow>
                (let base_score =
                       fl A (fdiv A pw (real_of_int (topic_replies main_info)) * 200);
                     scored_lastpost = Math_trunc (fl A (real_of_int timestamp - base_score))
                 in Num (min scored_lastpost timestamp)))
      else Num timestamp)"

text \<open>
  What is assumed of the arithmetic where a value is computed: rounding is monotone and
  odd and has relative error at most \<open>2 ^ -53\<close> on the normal range; division by a
  non-zero number is the rounded quotient; \<^verbatim>\<open>Math.pow\<close> at the exponent \<^verbatim>\<open>1.8\<close> is NaN
  for a negative base, a number that is not negative otherwise, and within relative error
  \<open>2 ^ -40\<close> of the real power \<open>x powr (9 / 5)\<close> (this covers both the rounding of the
  exponent and the error of the library function).
\<close>

definition double_like :: "arith \<Rightarrow> bool" where
  "double_like A \<longleftrightarrow>
     (\<forall>x y. x \<le> y \<longrightarrow> fl A x \<le> fl A y)
     \<and> (\<forall>x. fl A (- x) = - fl A x)
     \<and> (\<forall>x. 1 / 2 ^ 1022 \<le> \<bar>x\<bar> \<and> \<bar>x\<bar> \<le> 2 ^ 1023 \<longrightarrow> \<bar>fl A x - x\<bar> \<le> \<bar>x\<bar> / 2 ^ 53)
     \<and> (\<forall>x y. y \<noteq> 0 \<longrightarrow> fdiv A x y = fl A (x / y))
     \<and> (\<forall>x. x < 0 \<longrightarrow> Math_pow A x (fl A (9 / 5)) = None)
     \<and> (\<forall>x. 0 \<le> x \<longrightarrow> (\<exists>p. Math_pow A x (fl A (9 / 5)) = Some p \<and> 0 \<le> p))
     \<and> (\<forall>x p. 1 / 2 ^ 500 \<le> x \<and> x \<le> 2 ^ 500 \<and> Math_pow A x (fl A (9 / 5)) = Some p
            \<longrightarrow> \<bar>p - x powr (9 / 5)\<bar> \<le> x powr (9 / 5) / 2 ^ 40)"

text \<open>The arithmetic without rounding error, an instance of the above.\<close>

definition exact_arith :: arith where
  "exact_arith =
     \<lparr>fl = (\<lambda>x. x), fdiv = (\<lambda>x y. x / y),
      Math_pow = (\<lambda>x y. if x < 0 then None else Some (x powr y))\<rparr>"

section \<open>The store\<close>

text \<open>
  The two tables, each a list of rows in the order in which the engine hands them out
  when a query names no order, and the counter that numbers new posts.
\<close>

record DB =
  group_topics :: "GroupTopic list"
  group_posts :: "GroupPost list"
  post_auto_increment :: int

text \<open>
  The calls on the store that \<^verbatim>\<open>fetchTopicList\<close> makes, in the order it makes them, with
  what it passes: the group id and the display list of \<^verbatim>\<open>where\<close>, and for the query the
  values of \<^verbatim>\<open>skip\<close> and \<^verbatim>\<open>take\<close>.
\<close>

datatype store_op = TopicCount int "int list" | TopicFind int "int list" int int

text \<open>\<^verbatim>\<open>GroupTopicRepo.findOne({ where: { id } })\<close>: the first row with this id, if any.\<close>

definition GroupTopicRepo_findOne :: "int \<Rightarrow> DB \<Rightarrow> GroupTopic option" where
  "GroupTopicRepo_findOne i db = find (\<lambda>t. topic_id t = i) (group_topics db)"

text \<open>\<^verbatim>\<open>GroupPostRepo.find({ where: { topicID } })\<close>: the posts of the topic, in table order.\<close>

definition GroupPostRepo_find :: "int \<Rightarrow> DB \<Rightarrow> GroupPost list" where
  "GroupPostRepo_find tid db = filter (\<lambda>p. post_topicID p = tid) (group_posts db)"

text \<open>\<^verbatim>\<open>GroupTopicRepo.count({ where })\<close>.\<close>

definition GroupTopicRepo_count :: "(GroupTopic \<Rightarrow> bool) \<Rightarrow> DB \<Rightarrow> int" where
  "GroupTopicRepo_count wh db = int (length (filter wh (group_topics db)))"

text \<open>
  \<^verbatim>\<open>order: { dateline: 'desc' }\<close>: rows by descending dateline. The query names no second
  key, so rows with the same dateline stay in the order the engine met them.
\<close>

definition order_dateline_desc :: "GroupTopic list \<Rightarrow> GroupTopic list" where
  "order_dateline_desc rows = sort_key (\<lambda>t. - topic_dateline t) rows"

text \<open>
  Modelled from the spec: \<^verbatim>\<open>GroupTopicRepo.find\<close> with \<^verbatim>\<open>where\<close>, \<^verbatim>\<open>order\<close>, \<^verbatim>\<open>skip\<close>
  and \<^verbatim>\<open>take\<close> belongs to the store, outside this module (section 6: a topic list by
  parent and display set with skip/take and descending sort key). A negative skip or take
  is refused by the engine when the statement runs.
\<close>

definition GroupTopicRepo_find ::
  "(GroupTopic \<Rightarrow> bool) \<Rightarrow> int \<Rightarrow> int \<Rightarrow> DB \<Rightarrow> error + GroupTopic list" where
  "GroupTopicRepo_find wh skip tk db =
     (if skip < 0 \<or> tk < 0 then Inl QueryFailedError
      else Inr (take (nat tk) (drop (nat skip)
             (order_dateline_desc (filter wh (group_topics db))))))"

text \<open>
  \<^verbatim>\<open>GroupPostRepo.save\<close> of an entity without id: the row is appended under the next
  number of the counter and returned with it.
\<close>

definition GroupPostRepo_save :: "GroupPost \<Rightarrow> DB \<Rightarrow> GroupPost \<times> DB" where
  "GroupPostRepo_save p db =
     (let post = p\<lparr>post_id := post_auto_increment db\<rparr>
      in (post, db\<lparr>group_posts := group_posts db @ [post],
                    post_auto_increment := post_auto_increment db + 1\<rparr>))"

text \<open>
  The object \<^verbatim>\<open>topicUpdate\<close>: \<^verbatim>\<open>dateline\<close> is \<^verbatim>\<open>undefined\<close> (\<open>None\<close>) until it is
  assigned.
\<close>

record TopicUpdate =
  upd_replies :: int
  upd_dateline :: "number option"

definition apply_TopicUpdate :: "TopicUpdate \<Rightarrow> GroupTopic \<Rightarrow> GroupTopic" where
  "apply_TopicUpdate u t =
     (case upd_dateline u of
        Some (Num v) \<Rightarrow> t\<lparr>topic_replies := upd_replies u, topic_dateline := v\<rparr>
      | _ \<Rightarrow> t\<lparr>topic_replies := upd_replies u\<rparr>)"

text \<open>
  \<^verbatim>\<open>GroupTopicRepo.update({ id }, topicUpdate)\<close>: every row with this id takes the
  properties of the object that are defined; an undefined property is left out of the
  statement. An integer column cannot take NaN: the statement fails.
\<close>

definition GroupTopicRepo_update :: "int \<Rightarrow> TopicUpdate \<Rightarrow> DB \<Rightarrow> error + DB" where
  "GroupTopicRepo_update i u db =
     (if upd_dateline u = Some NaN then Inl QueryFailedError
      else Inr (db\<lparr>group_topics :=
                  map (\<lambda>t. if topic_id t = i then apply_TopicUpdate u t else t)
                    (group_topics db)\<rparr>))"

section \<open>fetchDetail\<close>

record IBaseReply =
  reply_id :: int
  reply_repliedTo :: int
  reply_creatorID :: int
  reply_text :: string
  reply_state :: int
  reply_createdAt :: int

type_synonym ISubReply = IBaseReply

record IReply = IBaseReply +
  replies :: "ISubReply list"

record ITopicDetails =
  details_id :: int
  details_title :: string
  details_text :: string
  details_display :: int
  details_state :: int
  details_createdAt :: int
  details_creatorID :: int
  details_parentID :: int
  details_replies :: "IReply list"

definition toSubReply :: "GroupPost \<Rightarrow> ISubReply" where
  "toSubReply x =
     \<lparr>reply_id = post_id x, reply_repliedTo = post_related x,
      reply_creatorID = post_uid x, reply_text = post_content x,
      reply_state = post_state x, reply_createdAt = post_dateline x\<rparr>"

text \<open>
  The body of the loop that fills \<^verbatim>\<open>subReplies\<close>: the entry of the key is created empty
  when it is missing, then the sub-reply is pushed onto it.
\<close>

definition addSubReply :: "GroupPost \<Rightarrow> (int \<rightharpoonup> ISubReply list) \<Rightarrow> (int \<rightharpoonup> ISubReply list)" where
  "addSubReply x subReplies =
     (let sub = toSubReply x;
          subReplies1 = (case subReplies (post_related x) of
                           None \<Rightarrow> subReplies(post_related x \<mapsto> [])
                         | Some _ \<Rightarrow> subReplies)
      in case subReplies1 (post_related x) of
           None \<Rightarrow> subReplies1
         | Some l \<Rightarrow> subReplies1(post_related x \<mapsto> l @ [sub]))"

definition toReply :: "(int \<rightharpoonup> ISubReply list) \<Rightarrow> GroupPost \<Rightarrow> IReply" where
  "toReply subReplies x =
     \<lparr>reply_id = post_id x, reply_repliedTo = post_related x,
      reply_creatorID = post_uid x, reply_text = post_content x,
      reply_state = post_state x, reply_createdAt = post_dateline x,
      replies = (case subReplies (post_id x) of None \<Rightarrow> [] | Some l \<Rightarrow> l)\<rparr>"

text \<open>
  \<^verbatim>\<open>CanViewTopicContent\<close> and \<^verbatim>\<open>filterReply\<close> come from \<^verbatim>\<open>lib/topic/display\<close>, outside
  this module: they are parameters. \<open>Inr None\<close> is the result \<^verbatim>\<open>null\<close>. The parameter \<^verbatim>\<open>type\<close>
  has the single value \<^verbatim>\<open>'group'\<close> and only enters the text of the error.
\<close>

definition fetchDetail ::
  "('auth \<Rightarrow> GroupTopic \<Rightarrow> bool) \<Rightarrow> (IReply \<Rightarrow> IReply) \<Rightarrow> 'auth \<Rightarrow> int \<Rightarrow> DB
     \<Rightarrow> error + ITopicDetails option" where
  "fetchDetail CanViewTopicContent filterReply auth i db =
     (case GroupTopicRepo_findOne i db of
        None \<Rightarrow> Inr None
      | Some topic \<Rightarrow>
          if \<not> CanViewTopicContent auth topic then Inr None
          else
            (case GroupPostRepo_find (topic_id topic) db of
               [] \<Rightarrow> Inl UnexpectedNotFoundError
             | top' # rest \<Rightarrow>
                 (let subReplies =
                        fold addSubReply (filter (\<lambda>x. post_related x \<noteq> 0) rest) Map.empty;
                      topLevelReplies =
                        map filterReply
                          (map (toReply subReplies) (filter (\<lambda>x. post_related x = 0) rest))
                  in Inr (Some \<lparr>details_id = topic_id topic,
                                 details_title = topic_title topic,
                                 details_text = post_content top',
                                 details_display = topic_display topic,
                                 details_state = topic_state topic,
                                 details_createdAt = post_dateline top',
                                 details_creatorID = post_uid top',
                                 details_parentID = topic_gid topic,
                                 details_replies = topLevelReplies\<rparr>))))"

section \<open>fetchTopicList\<close>

record Page =
  limit :: "int option"
  offset :: "int option"

record ITopic =
  itopic_id :: int
  itopic_parentID :: int
  itopic_creatorID :: int
  itopic_updatedAt :: int
  itopic_createdAt :: int
  itopic_title :: string
  itopic_repliesCount :: int

definition toITopic :: "GroupTopic \<Rightarrow> ITopic" where
  "toITopic x =
     \<lparr>itopic_id = topic_id x, itopic_parentID = topic_gid x,
      itopic_creatorID = topic_creatorID x, itopic_updatedAt = topic_lastpost x,
      itopic_createdAt = topic_dateline x, itopic_title = topic_title x,
      itopic_repliesCount = topic_replies x\<rparr>"

text \<open>
  \<^verbatim>\<open>ListTopicDisplays\<close> is a parameter as well. The result comes with the calls made on the
  store, in order; an absent \<^verbatim>\<open>limit\<close> is 30 and an absent \<^verbatim>\<open>offset\<close> is 0.
\<close>

definition fetchTopicList ::
  "('auth \<Rightarrow> int list) \<Rightarrow> 'auth \<Rightarrow> Type \<Rightarrow> int \<Rightarrow> Page \<Rightarrow> DB
     \<Rightarrow> store_op list \<times> (error + int \<times> ITopic list)" where
  "fetchTopicList ListTopicDisplays auth type i page db =
     (let lim = (case limit page of None \<Rightarrow> 30 | Some l \<Rightarrow> l);
          off = (case offset page of None \<Rightarrow> 0 | Some k \<Rightarrow> k)
      in if type \<noteq> group then ([], Inl UnimplementedError)
         else
           (let wh = (\<lambda>t. topic_gid t = i \<and> topic_display t \<in> set (ListTopicDisplays auth));
                total = GroupTopicRepo_count wh db;
                calls = [TopicCount i (ListTopicDisplays auth),
                         TopicFind i (ListTopicDisplays auth) off lim]
            in case GroupTopicRepo_find wh off lim db of
                 Inl e \<Rightarrow> (calls, Inl e)
               | Inr topics \<Rightarrow> (calls, Inr (total, map toITopic topics))))"

section \<open>createTopicReply\<close>

record CreateReply =
  arg_topicType :: Type
  arg_topicID :: int
  arg_userID :: int
  arg_content :: string
  arg_parentID :: int
  arg_state :: "int option"

record 'u IPost =
  ipost_id :: int
  ipost_user :: 'u
  ipost_createdAt :: int
  ipost_state :: int
  ipost_content :: string
  ipost_topicID :: int
  ipost_type :: Type

text \<open>
  The callback of \<^verbatim>\<open>AppDataSource.transaction\<close>, at the clock reading \<open>now\<close> (unix
  seconds), on the arithmetic \<open>A\<close>. \<open>Inl\<close> is a throw, on which the transaction leaves the store as it was.
\<close>

definition reply_transaction ::
  "arith \<Rightarrow> int \<Rightarrow> CreateReply \<Rightarrow> DB \<Rightarrow> error + GroupPost \<times> DB" where
  "reply_transaction A now args db =
     (case GroupTopicRepo_findOne (arg_topicID args) db of
        None \<Rightarrow> Inl EntityNotFoundError
      | Some topic \<Rightarrow>
          (let state = (case arg_state args of None \<Rightarrow> ReplyState_Normal | Some s \<Rightarrow> s);
               (post, db1) =
                 GroupPostRepo_save
                   \<lparr>post_id = 0, post_topicID = arg_topicID args, post_uid = arg_userID args,
                    post_related = arg_parentID args, post_content = arg_content args,
                    post_state = state, post_dateline = now\<rparr> db;
               topicUpdate0 = \<lparr>upd_replies = topic_replies topic + 1, upd_dateline = None\<rparr>;
               topicUpdate =
                 (if topic_state topic \<noteq> ReplyState_AdminSilentTopic
                  then topicUpdate0\<lparr>upd_dateline :=
                         Some (scoredUpdateTime A now (arg_topicType args) topic)\<rparr>
                  else topicUpdate0)
           in case GroupTopicRepo_update (topic_id topic) topicUpdate db1 of
                Inl e \<Rightarrow> Inl e
              | Inr db2 \<Rightarrow> Inr (post, db2)))"

text \<open>
  \<^verbatim>\<open>fetchUserX\<close> belongs to the user service and is a parameter; it runs after the commit.
  The result is paired with the store the call leaves behind.
\<close>

definition createTopicReply ::
  "arith \<Rightarrow> (int \<Rightarrow> error + 'u) \<Rightarrow> int \<Rightarrow> CreateReply \<Rightarrow> DB \<Rightarrow> (error + 'u IPost) \<times> DB" where
  "createTopicReply A fetchUserX now args db =
     (if arg_topicType args \<noteq> group then (Inl UnimplementedError, db)
      else
        (case reply_transaction A now args db of
           Inl e \<Rightarrow> (Inl e, db)
         | Inr (p, db') \<Rightarrow>
             (case fetchUserX (post_uid p) of
                Inl e \<Rightarrow> (Inl e, db')
              | Inr u \<Rightarrow>
                  (Inr \<lparr>ipost_id = post_id p, ipost_user = u, ipost_createdAt = post_dateline p,
                        ipost_state = post_state p, ipost_content = post_content p,
                        ipost_topicID = post_topicID p, ipost_type = group\<rparr>, db'))))"

section \<open>The specification's wording, for comparison\<close>


text \<open>
  Modelled from the spec: \<^verbatim>\<open>filterReply\<close> is defined in \<^verbatim>\<open>lib/topic/display\<close>, outside this module. Section 4.1 and section 6 say of
  the redaction that it may blank content and creator, keeps id and repliedTo, and never
  removes a node; this is that condition on the parameter.
\<close>

definition preserves_placement :: "(IReply \<Rightarrow> IReply) \<Rightarrow> bool" where
  "preserves_placement filterReply \<longleftrightarrow>
     (\<forall>x. reply_id (filterReply x) = reply_id x
        \<and> map reply_id (replies (filterReply x)) = map reply_id (replies x)
        \<and> map reply_repliedTo (replies (filterReply x)) = map reply_repliedTo (replies x))"

section \<open>Sample data\<close>

definition topic_364 :: GroupTopic where
  "topic_364 = \<lparr>topic_id = 364, topic_gid = 364, topic_creatorID = 7, topic_title = ''a'',
     topic_dateline = 1000, topic_lastpost = 1000, topic_replies = 1, topic_state = 0,
     topic_display = 1\<rparr>"

definition topic_of_group_364 :: GroupTopic where
  "topic_of_group_364 = \<lparr>topic_id = 1, topic_gid = 364, topic_creatorID = 7,
     topic_title = ''b'', topic_dateline = 1000, topic_lastpost = 1000, topic_replies = 1,
     topic_state = 0, topic_display = 1\<rparr>"

definition topic_sunk :: GroupTopic where
  "topic_sunk = \<lparr>topic_id = 9, topic_gid = 2, topic_creatorID = 7, topic_title = ''c'',
     topic_dateline = 500, topic_lastpost = 500, topic_replies = 3, topic_state = 5,
     topic_display = 1\<rparr>"

definition topic_banned :: GroupTopic where
  "topic_banned = \<lparr>topic_id = 10, topic_gid = 2, topic_creatorID = 7, topic_title = ''d'',
     topic_dateline = 700, topic_lastpost = 700, topic_replies = 0, topic_state = 0,
     topic_display = 0\<rparr>"

definition topic_tie_2 :: GroupTopic where
  "topic_tie_2 = \<lparr>topic_id = 2, topic_gid = 3, topic_creatorID = 7, topic_title = ''e'',
     topic_dateline = 50, topic_lastpost = 50, topic_replies = 0, topic_state = 0,
     topic_display = 1\<rparr>"

definition topic_tie_1 :: GroupTopic where
  "topic_tie_1 = \<lparr>topic_id = 1, topic_gid = 3, topic_creatorID = 7, topic_title = ''f'',
     topic_dateline = 50, topic_lastpost = 50, topic_replies = 0, topic_state = 0,
     topic_display = 1\<rparr>"

definition topic_newer :: GroupTopic where
  "topic_newer = \<lparr>topic_id = 3, topic_gid = 3, topic_creatorID = 7, topic_title = ''g'',
     topic_dateline = 60, topic_lastpost = 60, topic_replies = 0, topic_state = 0,
     topic_display = 1\<rparr>"

definition mk_post :: "int \<Rightarrow> int \<Rightarrow> int \<Rightarrow> int \<Rightarrow> string \<Rightarrow> GroupPost" where
  "mk_post i tid rel st txt =
     \<lparr>post_id = i, post_topicID = tid, post_uid = 40 + i, post_related = rel,
      post_content = txt, post_state = st, post_dateline = 1000 + i\<rparr>"

text \<open>
  A thread on topic 364: the top post 1, the top-level replies 2 and 5, the sub-replies 3
  and 4 of reply 2, and post 6, a reply to the sub-reply 3.
\<close>

definition thread_posts :: "GroupPost list" where
  "thread_posts =
     [mk_post 1 364 0 0 ''top'', mk_post 2 364 0 0 ''r2'', mk_post 3 364 2 0 ''s3'',
      mk_post 4 364 2 6 ''s4'', mk_post 5 364 0 7 ''r5'', mk_post 6 364 3 0 ''s6'']"

definition sample_db :: DB where
  "sample_db = \<lparr>group_topics = [topic_364, topic_of_group_364, topic_sunk, topic_banned],
     group_posts = thread_posts, post_auto_increment = 7\<rparr>"

definition ties_db :: DB where
  "ties_db = \<lparr>group_topics = [topic_tie_2, topic_newer, topic_tie_1],
     group_posts = [], post_auto_increment = 1\<rparr>"

definition sample_reply :: "int \<Rightarrow> CreateReply" where
  "sample_reply tid = \<lparr>arg_topicType = group, arg_topicID = tid, arg_userID = 8,
     arg_content = ''hello'', arg_parentID = 0, arg_state = None\<rparr>"

text \<open>A redaction that blanks everything it may blank, on the reply and its sub-replies.\<close>

definition blank_all :: "IReply \<Rightarrow> IReply" where
  "blank_all x = x\<lparr>reply_creatorID := 0, reply_text := [],
     replies := map (\<lambda>s. s\<lparr>reply_creatorID := 0, reply_text := []\<rparr>) (replies x)\<rparr>"

text \<open>A visibility policy that shows a topic exactly when its display is Normal.\<close>

definition normal_only :: "unit \<Rightarrow> GroupTopic \<Rightarrow> bool" where
  "normal_only auth topic = (topic_display topic = 1)"

section \<open>Arithmetic of the decay term\<close>

lemma powr_9_5_pow5:
  fixes x :: real
  assumes "0 < x"
  shows "(x powr (9 / 5)) ^ 5 = x ^ 9"
proof -
  have "(x powr (9 / 5)) ^ 5 = (x powr (9 / 5)) powr 5"
    by simp
  also have "\<dots> = x powr 9"
    by (simp add: powr_powr)
  also have "\<dots> = x ^ 9"
    using assms by simp
  finally show ?thesis .
qed

lemma powr_9_5_between:
  fixes x lo hi :: real
  assumes x: "0 < x" and lo0: "0 \<le> lo" and hi0: "0 \<le> hi"
    and lo: "lo ^ 5 < x ^ 9" and hi: "x ^ 9 < hi ^ 5"
  shows "lo < x powr (9 / 5) \<and> x powr (9 / 5) < hi"
proof -
  define p where "p = x powr (9 / 5)"
  have p0: "0 \<le> p" by (simp add: p_def)
  have p5: "p ^ 5 = x ^ 9"
    unfolding p_def using x by (rule powr_9_5_pow5)
  have l: "lo < p"
  proof (rule ccontr)
    assume "\<not> lo < p"
    then have "p \<le> lo" by simp
    then have "p ^ 5 \<le> lo ^ 5"
      using p0 by (rule power_mono)
    with lo show False unfolding p5 by simp
  qed
  have h: "p < hi"
  proof (rule ccontr)
    assume "\<not> p < hi"
    then have "hi \<le> p" by simp
    then have "hi ^ 5 \<le> p ^ 5"
      using hi0 by (rule power_mono)
    with hi show False unfolding p5 by simp
  qed
  from l h show ?thesis unfolding p_def by simp
qed

lemma exact_arith_double_like: "double_like exact_arith"
  by (simp add: double_like_def exact_arith_def)

lemma fl_zero: "double_like A \<Longrightarrow> fl A 0 = 0"
proof -
  assume "double_like A"
  then have "fl A (- 0) = - fl A 0" unfolding double_like_def by blast
  then show ?thesis by simp
qed

lemma fl_close:
  assumes "double_like A" and "1 / 1000 \<le> \<bar>x\<bar>" and "\<bar>x\<bar> \<le> 1000000"
  shows "\<bar>fl A x - x\<bar> \<le> \<bar>x\<bar> / 1000000"
proof -
  have "(1::real) / 2 ^ 1022 \<le> 1 / 1000" by simp
  with assms(2) have lo: "1 / 2 ^ 1022 \<le> \<bar>x\<bar>" by linarith
  have "(1000000::real) \<le> 2 ^ 1023" by simp
  with assms(3) have hi: "\<bar>x\<bar> \<le> 2 ^ 1023" by linarith
  from assms(1) lo hi have "\<bar>fl A x - x\<bar> \<le> \<bar>x\<bar> / 2 ^ 53"
    unfolding double_like_def by blast
  moreover have "\<bar>x\<bar> / 2 ^ 53 \<le> \<bar>x\<bar> / 1000000"
    by (rule divide_left_mono) simp_all
  ultimately show ?thesis by linarith
qed

lemma fl_close_pos:
  assumes "double_like A" and "1 / 1000 \<le> x" and "x \<le> 1000000"
  shows "x - x / 1000000 \<le> fl A x \<and> fl A x \<le> x + x / 1000000"
  using fl_close [OF assms(1), of x] assms(2,3) by linarith

lemma pow_close:
  assumes "double_like A" and "1 / 1000 \<le> x" and "x \<le> 1000"
  obtains p where "Math_pow A x (fl A (9 / 5)) = Some p"
    and "x powr (9 / 5) - x powr (9 / 5) / 1000000 \<le> p"
    and "p \<le> x powr (9 / 5) + x powr (9 / 5) / 1000000"
proof -
  have x0: "0 \<le> x" using assms(2) by simp
  with assms(1) obtain p where p: "Math_pow A x (fl A (9 / 5)) = Some p"
    unfolding double_like_def by blast
  have "(1::real) / 2 ^ 500 \<le> 1 / 1000" by simp
  with assms(2) have lo: "1 / 2 ^ 500 \<le> x" by linarith
  have "(1000::real) \<le> 2 ^ 500" by simp
  with assms(3) have hi: "x \<le> 2 ^ 500" by linarith
  from assms(1) lo hi p have "\<bar>p - x powr (9 / 5)\<bar> \<le> x powr (9 / 5) / 2 ^ 40"
    unfolding double_like_def by blast
  moreover have "x powr (9 / 5) / 2 ^ 40 \<le> x powr (9 / 5) / 1000000"
    by (rule divide_left_mono) simp_all
  ultimately have "\<bar>p - x powr (9 / 5)\<bar> \<le> x powr (9 / 5) / 1000000" by linarith
  then have "x powr (9 / 5) - x powr (9 / 5) / 1000000 \<le> p"
    and "p \<le> x powr (9 / 5) + x powr (9 / 5) / 1000000"
    by linarith+
  with p show ?thesis by (rule that)
qed

lemma fdiv_fl: "double_like A \<Longrightarrow> y \<noteq> 0 \<Longrightarrow> fdiv A x y = fl A (x / y)"
  unfolding double_like_def by blast

lemma trunc_between: "real_of_int k \<le> r \<Longrightarrow> r < real_of_int k + 1 \<Longrightarrow> 0 \<le> k \<Longrightarrow> Math_trunc r = k"
  by (simp add: Math_trunc_def floor_eq_iff)

lemma decay_one_hour:
  assumes dl: "double_like A"
  shows "\<exists>pw. Math_pow A (fl A (fdiv A 3600 3600 + fl A (1 / 10))) (fl A (9 / 5)) = Some pw
           \<and> Math_trunc (fl A (4600 - fl A (fdiv A pw 1 * 200))) = 4362"
proof -
  define h where "h = fdiv A 3600 3600"
  define c where "c = fl A (1 / 10)"
  define b where "b = fl A (h + c)"
  have "h = fl A 1"
    unfolding h_def using fdiv_fl [OF dl, of 3600 3600] by simp
  then have hb: "1 - 1 / 1000000 \<le> h \<and> h \<le> 1 + 1 / 1000000"
    using fl_close_pos [OF dl, of 1] by simp
  have cb: "1 / 10 - 1 / 10000000 \<le> c \<and> c \<le> 1 / 10 + 1 / 10000000"
    unfolding c_def using fl_close_pos [OF dl, of "1 / 10"] by simp
  have "1 / 1000 \<le> h + c" and "h + c \<le> 1000000"
    using hb cb by argo+
  then have "h + c - (h + c) / 1000000 \<le> b \<and> b \<le> h + c + (h + c) / 1000000"
    unfolding b_def by (rule fl_close_pos [OF dl])
  with hb cb have bb: "10999 / 10000 \<le> b" "b \<le> 11001 / 10000"
    by argo+
  then have "1 / 1000 \<le> b" and "b \<le> 1000" by argo+
  with dl obtain p where p: "Math_pow A b (fl A (9 / 5)) = Some p"
    and pb: "b powr (9 / 5) - b powr (9 / 5) / 1000000 \<le> p"
      "p \<le> b powr (9 / 5) + b powr (9 / 5) / 1000000"
    by (rule pow_close)
  have "(10999 / 10000 :: real) powr (9 / 5) \<le> b powr (9 / 5)"
    using bb(1) by (intro powr_mono2) simp_all
  moreover have "11869 / 10000 < (10999 / 10000 :: real) powr (9 / 5)
      \<and> (10999 / 10000 :: real) powr (9 / 5) < 2"
    by (rule powr_9_5_between) (simp_all add: power_divide)
  moreover have "b powr (9 / 5) \<le> (11001 / 10000 :: real) powr (9 / 5)"
    using bb by (intro powr_mono2) simp_all
  moreover have "1 < (11001 / 10000 :: real) powr (9 / 5)
      \<and> (11001 / 10000 :: real) powr (9 / 5) < 11874 / 10000"
    by (rule powr_9_5_between) (simp_all add: power_divide)
  ultimately have P: "11869 / 10000 \<le> b powr (9 / 5)" "b powr (9 / 5) \<le> 11874 / 10000"
    by argo+
  with pb have pp: "11868 / 10000 \<le> p" "p \<le> 11875 / 10000"
    by argo+
  define q where "q = fdiv A p 1"
  have "q = fl A p"
    unfolding q_def using fdiv_fl [OF dl, of 1 p] by simp
  moreover have "p - p / 1000000 \<le> fl A p \<and> fl A p \<le> p + p / 1000000"
    using pp by (intro fl_close_pos [OF dl]) argo+
  ultimately have qq: "11867 / 10000 \<le> q" "q \<le> 11876 / 10000"
    using pp by argo+
  define s where "s = fl A (q * 200)"
  have "q * 200 - q * 200 / 1000000 \<le> s \<and> s \<le> q * 200 + q * 200 / 1000000"
    unfolding s_def using qq by (intro fl_close_pos [OF dl]) argo+
  with qq have ss: "2373 / 10 \<le> s" "s \<le> 2376 / 10"
    by argo+
  define r where "r = fl A (4600 - s)"
  have "4600 - s - (4600 - s) / 1000000 \<le> r \<and> r \<le> 4600 - s + (4600 - s) / 1000000"
    unfolding r_def using ss by (intro fl_close_pos [OF dl]) argo+
  with ss have "4362 \<le> r" "r < 4363"
    by argo+
  then have "Math_trunc r = 4362"
    using trunc_between [of 4362 r] by simp
  with p show ?thesis
    unfolding r_def s_def q_def b_def h_def c_def by blast
qed

lemma scoredUpdateTime_decay:
  assumes "type = group" and "topic_id t = 364" and "0 < topic_replies t"
    and "Math_pow A (fl A (fdiv A (real_of_int (ts - topic_dateline t)) 3600 + fl A (1 / 10)))
           (fl A (9 / 5)) = Some pw"
  shows "scoredUpdateTime A ts type t =
           Num (min (Math_trunc (fl A (real_of_int ts
                  - fl A (fdiv A pw (real_of_int (topic_replies t)) * 200)))) ts)"
  using assms by (simp add: scoredUpdateTime_def Let_def)

lemma scored_one_hour:
  assumes dl: "double_like A"
    and t: "topic_id t = 364" "topic_replies t = 1" "topic_dateline t = 1000"
  shows "scoredUpdateTime A 4600 group t = Num 4362"
proof -
  from decay_one_hour [OF dl] obtain pw where
    pw: "Math_pow A (fl A (fdiv A 3600 3600 + fl A (1 / 10))) (fl A (9 / 5)) = Some pw"
    and v: "Math_trunc (fl A (4600 - fl A (fdiv A pw 1 * 200))) = 4362"
    by blast
  have "scoredUpdateTime A 4600 group t =
           Num (min (Math_trunc (fl A (real_of_int 4600
                  - fl A (fdiv A pw (real_of_int (topic_replies t)) * 200)))) 4600)"
    by (rule scoredUpdateTime_decay) (simp_all add: t pw)
  then show ?thesis by (simp add: t v)
qed

lemma decay_second_reply:
  assumes dl: "double_like A"
  shows "\<exists>pw. Math_pow A (fl A (fdiv A 3838 3600 + fl A (1 / 10))) (fl A (9 / 5)) = Some pw
           \<and> Math_trunc (fl A (8200 - fl A (fdiv A pw 2 * 200))) = 8068"
proof -
  define h where "h = fdiv A 3838 3600"
  define c where "c = fl A (1 / 10)"
  define b where "b = fl A (h + c)"
  have "h = fl A (1919 / 1800)"
    unfolding h_def using fdiv_fl [OF dl, of 3600 3838] by simp
  then have hb: "1919 / 1800 - 1 / 100000 \<le> h \<and> h \<le> 1919 / 1800 + 1 / 100000"
    using fl_close_pos [OF dl, of "1919 / 1800"] by simp
  have cb: "1 / 10 - 1 / 10000000 \<le> c \<and> c \<le> 1 / 10 + 1 / 10000000"
    unfolding c_def using fl_close_pos [OF dl, of "1 / 10"] by simp
  have "1 / 1000 \<le> h + c" and "h + c \<le> 1000000"
    using hb cb by argo+
  then have "h + c - (h + c) / 1000000 \<le> b \<and> b \<le> h + c + (h + c) / 1000000"
    unfolding b_def by (rule fl_close_pos [OF dl])
  with hb cb have bb: "11660 / 10000 \<le> b" "b \<le> 11662 / 10000"
    by argo+
  then have "1 / 1000 \<le> b" and "b \<le> 1000" by argo+
  with dl obtain p where p: "Math_pow A b (fl A (9 / 5)) = Some p"
    and pb: "b powr (9 / 5) - b powr (9 / 5) / 1000000 \<le> p"
      "p \<le> b powr (9 / 5) + b powr (9 / 5) / 1000000"
    by (rule pow_close)
  have "(11660 / 10000 :: real) powr (9 / 5) \<le> b powr (9 / 5)"
    using bb(1) by (intro powr_mono2) simp_all
  moreover have "13184 / 10000 < (11660 / 10000 :: real) powr (9 / 5)
      \<and> (11660 / 10000 :: real) powr (9 / 5) < 2"
    by (rule powr_9_5_between) (simp_all add: power_divide)
  moreover have "b powr (9 / 5) \<le> (11662 / 10000 :: real) powr (9 / 5)"
    using bb by (intro powr_mono2) simp_all
  moreover have "1 < (11662 / 10000 :: real) powr (9 / 5)
      \<and> (11662 / 10000 :: real) powr (9 / 5) < 13189 / 10000"
    by (rule powr_9_5_between) (simp_all add: power_divide)
  ultimately have P: "13184 / 10000 \<le> b powr (9 / 5)" "b powr (9 / 5) \<le> 13189 / 10000"
    by argo+
  with pb have pp: "13183 / 10000 \<le> p" "p \<le> 13190 / 10000"
    by argo+
  define q where "q = fdiv A p 2"
  have "q = fl A (p / 2)"
    unfolding q_def using fdiv_fl [OF dl, of 2 p] by simp
  moreover have "p / 2 - p / 2 / 1000000 \<le> fl A (p / 2) \<and> fl A (p / 2) \<le> p / 2 + p / 2 / 1000000"
    using pp by (intro fl_close_pos [OF dl]) argo+
  ultimately have qq: "6591 / 10000 \<le> q" "q \<le> 6596 / 10000"
    using pp by argo+
  define s where "s = fl A (q * 200)"
  have "q * 200 - q * 200 / 1000000 \<le> s \<and> s \<le> q * 200 + q * 200 / 1000000"
    unfolding s_def using qq by (intro fl_close_pos [OF dl]) argo+
  with qq have ss: "1318 / 10 \<le> s" "s \<le> 13195 / 100"
    by argo+
  define r where "r = fl A (8200 - s)"
  have "8200 - s - (8200 - s) / 1000000 \<le> r \<and> r \<le> 8200 - s + (8200 - s) / 1000000"
    unfolding r_def using ss by (intro fl_close_pos [OF dl]) argo+
  with ss have "8068 \<le> r" "r < 8069"
    by argo+
  then have "Math_trunc r = 8068"
    using trunc_between [of 8068 r] by simp
  with p show ?thesis
    unfolding r_def s_def q_def b_def h_def c_def by blast
qed

lemma scored_second_reply:
  assumes dl: "double_like A"
    and t: "topic_id t = 364" "topic_replies t = 2" "topic_dateline t = 4362"
  shows "scoredUpdateTime A 8200 group t = Num 8068"
proof -
  from decay_second_reply [OF dl] obtain pw where
    pw: "Math_pow A (fl A (fdiv A 3838 3600 + fl A (1 / 10))) (fl A (9 / 5)) = Some pw"
    and v: "Math_trunc (fl A (8200 - fl A (fdiv A pw 2 * 200))) = 8068"
    by blast
  have "scoredUpdateTime A 8200 group t =
           Num (min (Math_trunc (fl A (real_of_int 8200
                  - fl A (fdiv A pw (real_of_int (topic_replies t)) * 200)))) 8200)"
    by (rule scoredUpdateTime_decay) (simp_all add: t pw)
  then show ?thesis by (simp add: t v)
qed

text \<open>A reply dated a thousand seconds before the dateline: the base of the power is negative.\<close>

lemma fl_mono: "double_like A \<Longrightarrow> x \<le> y \<Longrightarrow> fl A x \<le> fl A y"
  unfolding double_like_def by blast

lemma fl_neg_const:
  assumes dl: "double_like A" and "1 / 1000 \<le> x" and "x \<le> 1000000"
  shows "fl A (- x) \<le> - x + x / 1000000 \<and> - x - x / 1000000 \<le> fl A (- x)"
proof -
  have "fl A (- x) = - fl A x"
    using dl unfolding double_like_def by blast
  then show ?thesis
    using fl_close_pos [OF assms] by argo
qed

lemma scored_before_dateline:
  assumes dl: "double_like A"
    and t: "topic_id t = 364" "topic_replies t = 1" "topic_dateline t = 1000"
  shows "scoredUpdateTime A 0 group t = NaN"
proof -
  define h where "h = fdiv A (- 1000) 3600"
  define c where "c = fl A (1 / 10)"
  have "h = fl A (- (5 / 18))"
    unfolding h_def using fdiv_fl [OF dl, of 3600 "- 1000"] by simp
  then have hb: "h \<le> - (27 / 100)"
    using fl_neg_const [OF dl, of "5 / 18"] by simp
  have cb: "c \<le> 11 / 100"
    unfolding c_def using fl_close_pos [OF dl, of "1 / 10"] by simp
  have "h + c \<le> - (4 / 25)"
    using hb cb by argo
  then have "fl A (h + c) \<le> fl A (- (4 / 25))"
    by (rule fl_mono [OF dl])
  moreover have "fl A (- (4 / 25)) \<le> - (3 / 20)"
    using fl_neg_const [OF dl, of "4 / 25"] by simp
  ultimately have "fl A (h + c) < 0" by argo
  then have "Math_pow A (fl A (h + c)) (fl A (9 / 5)) = None"
    using dl unfolding double_like_def by blast
  then show ?thesis
    unfolding h_def c_def by (simp add: scoredUpdateTime_def t)
qed


section \<open>Lists, rows and the sample data\<close>

lemma find_map_same_key:
  assumes "\<And>x. k (g x) = k x"
  shows "find (\<lambda>t. k t = i) (map g xs) = map_option g (find (\<lambda>t. k t = i) xs)"
  using assms by (induction xs) simp_all

lemma find_Some_key: "find P xs = Some x \<Longrightarrow> P x"
  by (induction xs) (auto split: if_splits)

lemmas sample_defs = sample_db_def topic_364_def topic_of_group_364_def topic_sunk_def
  topic_banned_def sample_reply_def thread_posts_def mk_post_def

lemmas reply_defs = createTopicReply_def reply_transaction_def GroupPostRepo_save_def
  GroupTopicRepo_update_def GroupTopicRepo_findOne_def apply_TopicUpdate_def
  ReplyState_AdminSilentTopic_def ReplyState_Normal_def

lemma reply_on_364:
  assumes dl: "double_like A"
  shows "createTopicReply A (\<lambda>u. Inr u) 4600 (sample_reply 364) sample_db =
     (Inr \<lparr>ipost_id = 7, ipost_user = 8, ipost_createdAt = 4600, ipost_state = 0,
           ipost_content = ''hello'', ipost_topicID = 364, ipost_type = group\<rparr>,
      sample_db\<lparr>group_topics :=
        [topic_364\<lparr>topic_replies := 2, topic_dateline := 4362\<rparr>, topic_of_group_364,
         topic_sunk, topic_banned],
        group_posts := thread_posts @ [\<lparr>post_id = 7, post_topicID = 364, post_uid = 8,
           post_related = 0, post_content = ''hello'', post_state = 0, post_dateline = 4600\<rparr>],
        post_auto_increment := 8\<rparr>)"
  by (simp add: sample_defs reply_defs scored_one_hour [OF dl] Let_def)

lemma topic_364_after_reply:
  assumes dl: "double_like A"
  shows "GroupTopicRepo_findOne 364
           (snd (createTopicReply A (\<lambda>u. Inr u) 4600 (sample_reply 364) sample_db))
          = Some (topic_364\<lparr>topic_replies := 2, topic_dateline := 4362\<rparr>)"
  by (simp add: reply_on_364 [OF dl] GroupTopicRepo_findOne_def) (simp add: sample_defs)



lemma reply_on_sunk:
  "\<exists>p db'. createTopicReply A (\<lambda>u. Inr u) 4600 (sample_reply 9) sample_db = (Inr p, db')"
  by (simp add: sample_defs reply_defs Let_def)

section \<open>Thread assembly\<close>

lemma addSubReply_eq:
  "addSubReply x m =
     m(post_related x \<mapsto> (case m (post_related x) of None \<Rightarrow> [] | Some l \<Rightarrow> l) @ [toSubReply x])"
  by (simp add: addSubReply_def Let_def split: option.splits)

text \<open>What \<^verbatim>\<open>subReplies[k] ?? []\<close> reads after the loop.\<close>

lemma fold_addSubReply_lookup:
  "(case fold addSubReply xs m k of None \<Rightarrow> [] | Some l \<Rightarrow> l) =
     (case m k of None \<Rightarrow> [] | Some l \<Rightarrow> l) @ map toSubReply (filter (\<lambda>x. post_related x = k) xs)"
proof (induction xs arbitrary: m)
  case Nil
  then show ?case by simp
next
  case (Cons x xs)
  have step: "(case addSubReply x m k of None \<Rightarrow> [] | Some l \<Rightarrow> l) =
      (case m k of None \<Rightarrow> [] | Some l \<Rightarrow> l) @ (if post_related x = k then [toSubReply x] else [])"
    by (simp add: addSubReply_eq)
  have "(case fold addSubReply (x # xs) m k of None \<Rightarrow> [] | Some l \<Rightarrow> l) =
      (case addSubReply x m k of None \<Rightarrow> [] | Some l \<Rightarrow> l)
        @ map toSubReply (filter (\<lambda>x. post_related x = k) xs)"
    using Cons.IH [of "addSubReply x m"] by simp
  then show ?case
    by (simp add: step)
qed

lemma replies_toReply:
  "replies (toReply (fold addSubReply (filter (\<lambda>x. post_related x \<noteq> 0) rest) Map.empty) x) =
     map toSubReply (filter (\<lambda>y. post_related y \<noteq> 0 \<and> post_related y = post_id x) rest)"
proof -
  have "replies (toReply (fold addSubReply (filter (\<lambda>x. post_related x \<noteq> 0) rest) Map.empty) x) =
     map toSubReply (filter (\<lambda>y. post_related y = post_id x) (filter (\<lambda>x. post_related x \<noteq> 0) rest))"
    unfolding toReply_def
    using fold_addSubReply_lookup [of "filter (\<lambda>x. post_related x \<noteq> 0) rest" Map.empty "post_id x"]
    by simp
  then show ?thesis by (simp add: conj_commute)
qed

lemma map_id_toSub: "map reply_id (map toSubReply xs) = map post_id xs"
  by (simp add: toSubReply_def)

lemma map_rel_toSub: "map reply_repliedTo (map toSubReply xs) = map post_related xs"
  by (simp add: toSubReply_def)

lemma distinct_grouped:
  assumes "distinct (map post_id rest)" and "distinct (map post_id tops)"
  shows "distinct (concat (map (\<lambda>x. map post_id
            (filter (\<lambda>y. Q y \<and> post_related y = post_id x) rest)) tops))"
  using assms(2)
proof (induction tops)
  case Nil
  then show ?case by simp
next
  case (Cons p ps)
  have d1: "distinct (map post_id (filter (\<lambda>y. Q y \<and> post_related y = post_id p) rest))"
    using assms(1) by (rule distinct_map_filter)
  have inj: "inj_on post_id (set rest)"
    using assms(1) by (simp add: distinct_map)
  have disj: "set (map post_id (filter (\<lambda>y. Q y \<and> post_related y = post_id p) rest))
        \<inter> set (concat (map (\<lambda>x. map post_id
              (filter (\<lambda>y. Q y \<and> post_related y = post_id x) rest)) ps)) = {}"
  proof (rule ccontr)
    assume "\<not> ?thesis"
    then obtain a b q where a: "a \<in> set rest" "post_related a = post_id p"
      and b: "b \<in> set rest" "post_related b = post_id q" and q: "q \<in> set ps"
      and ab: "post_id a = post_id b"
      by auto
    from inj ab a(1) b(1) have "a = b" by (rule inj_onD)
    with a b have "post_id p = post_id q" by simp
    with q Cons.prems show False by auto
  qed
  from Cons d1 disj show ?case by simp
qed

lemma blank_all_preserves: "preserves_placement blank_all"
  by (simp add: preserves_placement_def blank_all_def comp_def)

lemma sample_thread:
  "GroupTopicRepo_findOne 364 sample_db = Some topic_364
   \<and> GroupPostRepo_find (topic_id topic_364) sample_db = hd thread_posts # tl thread_posts
   \<and> normal_only () topic_364"
  by (simp add: GroupTopicRepo_findOne_def GroupPostRepo_find_def normal_only_def sample_defs)

lemma sample_thread_rendered:
  "\<exists>d. fetchDetail normal_only blank_all () 364 sample_db = Inr (Some d)"
  using sample_thread by (simp add: fetchDetail_def Let_def)

text \<open>The rendered sample: replies 2 and 5 with the sub-replies 3 and 4 under 2; post 6 is gone.\<close>

lemma sample_thread_shape:
  "map_sum id (map_option (\<lambda>d. map (\<lambda>p. (reply_id p, map reply_id (replies p))) (details_replies d)))
     (fetchDetail normal_only (\<lambda>x. x) () 364 sample_db) = Inr (Some [(2, [3, 4]), (5, [])])"
  by (simp add: fetchDetail_def GroupTopicRepo_findOne_def GroupPostRepo_find_def normal_only_def
      sample_defs addSubReply_eq toReply_def toSubReply_def Let_def)

section \<open>The claims\<close>

subsection \<open>C1\<close>




subsection \<open>C2\<close>

text \<open>
  C2: the age is measured from \<^verbatim>\<open>main_info.dateline\<close>, which the code calls
  \<^verbatim>\<open>$created_at\<close> and \<^verbatim>\<open>fetchTopicList\<close> returns as \<^verbatim>\<open>createdAt\<close>; but that is the column
  a reply overwrites with the score. Topic 364 is created at 1000; a reply at 4600 leaves
  4362 in the column, the list then reports 4362 as the creation time, and the next reply,
  at 8200, is scored with an age counted from 4362 (result 8068). This holds in every
  arithmetic that is \<open>double_like\<close>.
\<close>

theorem C2_reply_overwrites_created_at:
  assumes "double_like A"
  shows "map_option topic_dateline (GroupTopicRepo_findOne 364 sample_db) = Some 1000
   \<and> map_option topic_dateline
        (GroupTopicRepo_findOne 364
           (snd (createTopicReply A (\<lambda>u. Inr u) 4600 (sample_reply 364) sample_db))) = Some 4362
   \<and> map_option (itopic_createdAt \<circ> toITopic)
        (GroupTopicRepo_findOne 364
           (snd (createTopicReply A (\<lambda>u. Inr u) 4600 (sample_reply 364) sample_db))) = Some 4362
   \<and> map_option (scoredUpdateTime A 8200 group)
        (GroupTopicRepo_findOne 364
           (snd (createTopicReply A (\<lambda>u. Inr u) 4600 (sample_reply 364) sample_db)))
        = Some (Num 8068)"
proof -
  have "GroupTopicRepo_findOne 364
           (snd (createTopicReply A (\<lambda>u. Inr u) 4600 (sample_reply 364) sample_db))
          = Some (topic_364\<lparr>topic_replies := 2, topic_dateline := 4362\<rparr>)"
    using assms by (rule topic_364_after_reply)
  moreover have "scoredUpdateTime A 8200 group (topic_364\<lparr>topic_replies := 2, topic_dateline := 4362\<rparr>)
          = Num 8068"
    using assms by (rule scored_second_reply) (simp_all add: topic_364_def)
  moreover have "map_option topic_dateline (GroupTopicRepo_findOne 364 sample_db) = Some 1000"
    by (simp add: GroupTopicRepo_findOne_def sample_defs)
  ultimately show ?thesis by (simp add: toITopic_def)
qed

theorem C2_reply_overwrites_created_at_witness:
  "double_like exact_arith
   \<and> map_option topic_dateline (GroupTopicRepo_findOne 364 sample_db) = Some 1000
   \<and> map_option topic_dateline
        (GroupTopicRepo_findOne 364
           (snd (createTopicReply exact_arith (\<lambda>u. Inr u) 4600 (sample_reply 364) sample_db)))
        = Some 4362
   \<and> map_option (itopic_createdAt \<circ> toITopic)
        (GroupTopicRepo_findOne 364
           (snd (createTopicReply exact_arith (\<lambda>u. Inr u) 4600 (sample_reply 364) sample_db)))
        = Some 4362
   \<and> map_option (scoredUpdateTime exact_arith 8200 group)
        (GroupTopicRepo_findOne 364
           (snd (createTopicReply exact_arith (\<lambda>u. Inr u) 4600 (sample_reply 364) sample_db)))
        = Some (Num 8068)"
  using exact_arith_double_like C2_reply_overwrites_created_at [OF exact_arith_double_like]
  by (rule conjI)

subsection \<open>C3\<close>

text \<open>
  C3, as stated: an allow-listed topic with dateline 1000 and one reply, replied to at
  4600, gets 4379. The code does not return 4379 on this input (shown here on the
  arithmetic without rounding; the theorem below gives 4362 on every arithmetic that is
  \<open>double_like\<close>).
\<close>

theorem C3_scenario_is_not_4379:
  "scoredUpdateTime exact_arith 4600 group topic_364 \<noteq> Num 4379"
proof -
  have "scoredUpdateTime exact_arith 4600 group topic_364 = Num 4362"
    by (rule scored_one_hour [OF exact_arith_double_like]) (simp_all add: topic_364_def)
  then show ?thesis by simp
qed

text \<open>
  C3, amended: on that input the code returns 4362. The age is one hour, the power
  \<open>1.1 ^ 1.8\<close> is about 1.187, so the decay lies strictly between 237 and 238, with room
  for the rounding of every operation.
\<close>

theorem C3_scenario_is_4362:
  assumes "double_like A"
  shows "scoredUpdateTime A 4600 group topic_364 = Num 4362"
  using assms by (rule scored_one_hour) (simp_all add: topic_364_def)

theorem C3_scenario_is_4362_witness:
  "double_like exact_arith \<and> scoredUpdateTime exact_arith 4600 group topic_364 = Num 4362"
  using exact_arith_double_like C3_scenario_is_4362 [OF exact_arith_double_like]
  by (rule conjI)

subsection \<open>C4\<close>

text \<open>
  C4: in the rendered thread of a topic whose posts have distinct ids, under a redaction
  that keeps ids and repliedTo, the top-level entries are the posts with repliedTo 0 in
  order; every sub-reply sits under the entry whose id is its repliedTo; the sub-replies
  of an entry are exactly the posts with that non-zero repliedTo, in insertion order; no
  sub-reply occurs twice in the tree; and the sub-replies that occur are exactly those
  whose repliedTo is the id of a top-level reply, so a reply to a sub-reply occurs nowhere.
\<close>

theorem C4_two_level_tree:
  assumes det: "fetchDetail cv f auth i db = Inr (Some d)"
    and pres: "preserves_placement f"
    and topic: "GroupTopicRepo_findOne i db = Some topic"
    and posts: "GroupPostRepo_find (topic_id topic) db = top' # rest"
    and ids: "distinct (map post_id rest)"
  shows "map reply_id (details_replies d) = map post_id (filter (\<lambda>x. post_related x = 0) rest)
    \<and> (\<forall>p \<in> set (details_replies d). \<forall>s \<in> set (replies p). reply_repliedTo s = reply_id p)
    \<and> (\<forall>p \<in> set (details_replies d).
          map reply_id (replies p) =
            map post_id (filter (\<lambda>x. post_related x \<noteq> 0 \<and> post_related x = reply_id p) rest))
    \<and> distinct (concat (map (\<lambda>p. map reply_id (replies p)) (details_replies d)))
    \<and> set (concat (map (\<lambda>p. map reply_id (replies p)) (details_replies d))) =
        post_id ` {x \<in> set rest. post_related x \<noteq> 0
                     \<and> post_related x \<in> post_id ` {p \<in> set rest. post_related p = 0}}"
proof -
  define m where "m = fold addSubReply (filter (\<lambda>x. post_related x \<noteq> 0) rest) Map.empty"
  define tops where "tops = filter (\<lambda>x. post_related x = 0) rest"
  define subs where "subs = (\<lambda>k. filter (\<lambda>y. post_related y \<noteq> 0 \<and> post_related y = k) rest)"
  have dr: "details_replies d = map f (map (toReply m) tops)"
    using det topic posts
    by (auto simp add: fetchDetail_def Let_def m_def tops_def split: if_splits)
  have pid: "\<And>x. reply_id (f (toReply m x)) = post_id x"
    using pres by (simp add: preserves_placement_def toReply_def)
  have rt: "\<And>x. replies (toReply m x) = map toSubReply (subs (post_id x))"
    unfolding m_def subs_def by (rule replies_toReply)
  have sub_ids: "map reply_id (replies (f (toReply m x))) = map post_id (subs (post_id x))" for x
  proof -
    have "map reply_id (replies (f (toReply m x))) = map reply_id (replies (toReply m x))"
      using pres by (simp add: preserves_placement_def)
    also have "\<dots> = map reply_id (map toSubReply (subs (post_id x)))"
      by (simp only: rt)
    also have "\<dots> = map post_id (subs (post_id x))"
      by (rule map_id_toSub)
    finally show ?thesis .
  qed
  have sub_rel: "map reply_repliedTo (replies (f (toReply m x))) = map post_related (subs (post_id x))"
    for x
  proof -
    have "map reply_repliedTo (replies (f (toReply m x))) = map reply_repliedTo (replies (toReply m x))"
      using pres by (simp add: preserves_placement_def)
    also have "\<dots> = map reply_repliedTo (map toSubReply (subs (post_id x)))"
      by (simp only: rt)
    also have "\<dots> = map post_related (subs (post_id x))"
      by (rule map_rel_toSub)
    finally show ?thesis .
  qed
  have c1: "map reply_id (details_replies d) = map post_id (filter (\<lambda>x. post_related x = 0) rest)"
    by (simp add: dr pid tops_def)
  have c2: "\<forall>p \<in> set (details_replies d). \<forall>s \<in> set (replies p). reply_repliedTo s = reply_id p"
  proof (intro ballI)
    fix p s assume p: "p \<in> set (details_replies d)" and s: "s \<in> set (replies p)"
    from p obtain x where x: "p = f (toReply m x)" by (auto simp add: dr)
    from s have "reply_repliedTo s \<in> set (map reply_repliedTo (replies p))" by simp
    then have "reply_repliedTo s \<in> set (map post_related (subs (post_id x)))"
      by (simp only: x sub_rel)
    then have "reply_repliedTo s = post_id x" by (auto simp add: subs_def)
    then show "reply_repliedTo s = reply_id p" by (simp add: x pid)
  qed
  have c3: "\<forall>p \<in> set (details_replies d).
          map reply_id (replies p) =
            map post_id (filter (\<lambda>x. post_related x \<noteq> 0 \<and> post_related x = reply_id p) rest)"
  proof
    fix p assume p: "p \<in> set (details_replies d)"
    from p obtain x where x: "p = f (toReply m x)" by (auto simp add: dr)
    show "map reply_id (replies p) =
            map post_id (filter (\<lambda>x. post_related x \<noteq> 0 \<and> post_related x = reply_id p) rest)"
      by (simp add: x pid sub_ids subs_def)
  qed
  have cc: "concat (map (\<lambda>p. map reply_id (replies p)) (details_replies d)) =
        concat (map (\<lambda>x. map post_id (subs (post_id x))) tops)"
    by (simp add: dr comp_def sub_ids)
  have dt: "distinct (map post_id tops)"
    unfolding tops_def using ids by (rule distinct_map_filter)
  have c4: "distinct (concat (map (\<lambda>p. map reply_id (replies p)) (details_replies d)))"
    unfolding cc subs_def using ids dt by (rule distinct_grouped)
  have c5: "set (concat (map (\<lambda>p. map reply_id (replies p)) (details_replies d))) =
        post_id ` {x \<in> set rest. post_related x \<noteq> 0
                     \<and> post_related x \<in> post_id ` {p \<in> set rest. post_related p = 0}}"
    unfolding cc by (auto simp add: subs_def tops_def)
  from c1 c2 c3 c4 c5 show ?thesis by blast
qed

theorem C4_two_level_tree_witness:
  "preserves_placement blank_all
   \<and> GroupTopicRepo_findOne 364 sample_db = Some topic_364
   \<and> GroupPostRepo_find (topic_id topic_364) sample_db = hd thread_posts # tl thread_posts
   \<and> distinct (map post_id (tl thread_posts))
   \<and> (\<exists>d. fetchDetail normal_only blank_all () 364 sample_db = Inr (Some d)
        \<and> map reply_id (details_replies d) = [2, 5]
        \<and> (\<forall>p \<in> set (details_replies d). \<forall>s \<in> set (replies p). reply_repliedTo s = reply_id p)
        \<and> (\<forall>p \<in> set (details_replies d).
              map reply_id (replies p) =
                map post_id (filter (\<lambda>x. post_related x \<noteq> 0 \<and> post_related x = reply_id p)
                  (tl thread_posts)))
        \<and> distinct (concat (map (\<lambda>p. map reply_id (replies p)) (details_replies d)))
        \<and> 6 \<notin> set (concat (map (\<lambda>p. map reply_id (replies p)) (details_replies d))))"
proof -
  obtain d where det: "fetchDetail normal_only blank_all () 364 sample_db = Inr (Some d)"
    using sample_thread_rendered by blast
  have topic: "GroupTopicRepo_findOne 364 sample_db = Some topic_364"
    using sample_thread by simp
  have posts: "GroupPostRepo_find (topic_id topic_364) sample_db = hd thread_posts # tl thread_posts"
    using sample_thread by simp
  have ids: "distinct (map post_id (tl thread_posts))"
    by (simp add: thread_posts_def mk_post_def)
  note tree = C4_two_level_tree [OF det blank_all_preserves topic posts ids]
  have tops: "map post_id (filter (\<lambda>x. post_related x = 0) (tl thread_posts)) = [2, 5]"
    by (simp add: thread_posts_def mk_post_def)
  have orphan: "6 \<notin> post_id ` {x \<in> set (tl thread_posts). post_related x \<noteq> 0
                     \<and> post_related x \<in> post_id ` {p \<in> set (tl thread_posts). post_related p = 0}}"
    by (auto simp add: thread_posts_def mk_post_def)
  have t1: "map reply_id (details_replies d) = [2, 5]"
    using tree tops by simp
  have t2: "\<forall>p \<in> set (details_replies d). \<forall>s \<in> set (replies p). reply_repliedTo s = reply_id p"
    using tree by blast
  have t3: "\<forall>p \<in> set (details_replies d).
              map reply_id (replies p) =
                map post_id (filter (\<lambda>x. post_related x \<noteq> 0 \<and> post_related x = reply_id p)
                  (tl thread_posts))"
    using tree by blast
  have t4: "distinct (concat (map (\<lambda>p. map reply_id (replies p)) (details_replies d)))"
    using tree by blast
  have e: "set (concat (map (\<lambda>p. map reply_id (replies p)) (details_replies d))) =
        post_id ` {x \<in> set (tl thread_posts). post_related x \<noteq> 0
                     \<and> post_related x \<in> post_id ` {p \<in> set (tl thread_posts). post_related p = 0}}"
    using tree by blast
  have t5: "6 \<notin> set (concat (map (\<lambda>p. map reply_id (replies p)) (details_replies d)))"
    unfolding e by (rule orphan)
  have "\<exists>d. fetchDetail normal_only blank_all () 364 sample_db = Inr (Some d)
        \<and> map reply_id (details_replies d) = [2, 5]
        \<and> (\<forall>p \<in> set (details_replies d). \<forall>s \<in> set (replies p). reply_repliedTo s = reply_id p)
        \<and> (\<forall>p \<in> set (details_replies d).
              map reply_id (replies p) =
                map post_id (filter (\<lambda>x. post_related x \<noteq> 0 \<and> post_related x = reply_id p)
                  (tl thread_posts)))
        \<and> distinct (concat (map (\<lambda>p. map reply_id (replies p)) (details_replies d)))
        \<and> 6 \<notin> set (concat (map (\<lambda>p. map reply_id (replies p)) (details_replies d)))"
    by (rule exI [where x = d]) (intro conjI det t1 t2 t3 t4 t5)
  with blank_all_preserves topic posts ids show ?thesis by (intro conjI)
qed

subsection \<open>C5\<close>

text \<open>
  C5: a successful reply to a topic whose state is AdminSilentTopic (sunk) leaves the row
  as it was except that the reply counter is one more: the dateline and every other field
  are unchanged, and so is every other row.
\<close>

theorem C5_sunk_topic_keeps_dateline:
  assumes "createTopicReply A fetchUserX now args db = (Inr p, db')"
    and "GroupTopicRepo_findOne (arg_topicID args) db = Some topic"
    and "topic_state topic = ReplyState_AdminSilentTopic"
  shows "GroupTopicRepo_findOne (arg_topicID args) db'
           = Some (topic\<lparr>topic_replies := topic_replies topic + 1\<rparr>)
         \<and> group_topics db' =
             map (\<lambda>t. if topic_id t = arg_topicID args
                      then t\<lparr>topic_replies := topic_replies topic + 1\<rparr> else t)
               (group_topics db)"
proof -
  have tid: "topic_id topic = arg_topicID args"
    using assms(2) unfolding GroupTopicRepo_findOne_def by (auto dest: find_Some_key)
  have rows: "group_topics db' =
             map (\<lambda>t. if topic_id t = arg_topicID args
                      then t\<lparr>topic_replies := topic_replies topic + 1\<rparr> else t)
               (group_topics db)"
    using assms tid
    by (auto simp add: createTopicReply_def reply_transaction_def GroupPostRepo_save_def
        GroupTopicRepo_update_def apply_TopicUpdate_def Let_def
        split: if_splits sum.splits prod.splits)
  have "GroupTopicRepo_findOne (arg_topicID args) db'
          = map_option (\<lambda>t. if topic_id t = arg_topicID args
                      then t\<lparr>topic_replies := topic_replies topic + 1\<rparr> else t)
              (GroupTopicRepo_findOne (arg_topicID args) db)"
    unfolding GroupTopicRepo_findOne_def rows
    by (rule find_map_same_key) simp
  then show ?thesis using rows assms(2) tid by simp
qed

theorem C5_sunk_topic_keeps_dateline_witness:
  "\<exists>p db'. createTopicReply exact_arith (\<lambda>u. Inr u) 4600 (sample_reply 9) sample_db = (Inr p, db')
     \<and> GroupTopicRepo_findOne (arg_topicID (sample_reply 9)) sample_db = Some topic_sunk
     \<and> topic_state topic_sunk = ReplyState_AdminSilentTopic
     \<and> GroupTopicRepo_findOne (arg_topicID (sample_reply 9)) db'
           = Some (topic_sunk\<lparr>topic_replies := topic_replies topic_sunk + 1\<rparr>)
     \<and> group_topics db' =
             map (\<lambda>t. if topic_id t = arg_topicID (sample_reply 9)
                      then t\<lparr>topic_replies := topic_replies topic_sunk + 1\<rparr> else t)
               (group_topics sample_db)"
proof -
  obtain p db' where h1:
    "createTopicReply exact_arith (\<lambda>u. Inr u) 4600 (sample_reply 9) sample_db = (Inr p, db')"
    using reply_on_sunk by blast
  have h2: "GroupTopicRepo_findOne (arg_topicID (sample_reply 9)) sample_db = Some topic_sunk"
    by (simp add: GroupTopicRepo_findOne_def sample_defs)
  have h3: "topic_state topic_sunk = ReplyState_AdminSilentTopic"
    by (simp add: topic_sunk_def ReplyState_AdminSilentTopic_def)
  from h1 h2 h3 C5_sunk_topic_keeps_dateline [OF h1 h2 h3] show ?thesis by blast
qed

subsection \<open>C6\<close>

text \<open>
  C6, as stated: the listed topics are in descending order of sort timestamp and topics
  with equal timestamps are in ascending order of id. The query orders by dateline only;
  where the store meets topic 2 before topic 1 and both have dateline 50, the list has
  topic 2 before topic 1.
\<close>

theorem C6_equal_datelines_not_by_id:
  "snd (fetchTopicList (\<lambda>_. [1]) () group 3 \<lparr>limit = None, offset = None\<rparr> ties_db)
     = Inr (3, [toITopic topic_newer, toITopic topic_tie_2, toITopic topic_tie_1])
   \<and> itopic_createdAt (toITopic topic_tie_2) = itopic_createdAt (toITopic topic_tie_1)
   \<and> itopic_id (toITopic topic_tie_1) < itopic_id (toITopic topic_tie_2)"
  by (simp add: fetchTopicList_def GroupTopicRepo_find_def GroupTopicRepo_count_def
      order_dateline_desc_def ties_db_def topic_tie_1_def topic_tie_2_def topic_newer_def
      toITopic_def Let_def)

text \<open>
  C6, amended: the listed topics are in descending order of dateline, the sort timestamp,
  which the result carries as \<^verbatim>\<open>createdAt\<close>; the order among topics with equal dateline
  is the one the store returns.
\<close>

theorem C6_sorted_by_dateline_desc:
  assumes "snd (fetchTopicList ListTopicDisplays auth type i page db) = Inr (n, ts)"
  shows "sorted_wrt (\<lambda>a b. itopic_createdAt b \<le> itopic_createdAt a) ts"
proof -
  obtain wh sk tk where ts: "ts = map toITopic (take tk (drop sk
      (order_dateline_desc (filter wh (group_topics db)))))"
    using assms
    by (auto simp add: fetchTopicList_def GroupTopicRepo_find_def Let_def
        split: if_splits sum.splits)
  have "sorted (map (\<lambda>t. - topic_dateline t) (order_dateline_desc (filter wh (group_topics db))))"
    unfolding order_dateline_desc_def by (rule sorted_sort_key)
  then have "sorted_wrt (\<lambda>a b. topic_dateline b \<le> topic_dateline a)
      (order_dateline_desc (filter wh (group_topics db)))"
    by (simp add: sorted_map)
  then have "sorted_wrt (\<lambda>a b. topic_dateline b \<le> topic_dateline a)
      (take tk (drop sk (order_dateline_desc (filter wh (group_topics db)))))"
    by (intro sorted_wrt_take sorted_wrt_drop)
  then show ?thesis
    unfolding ts by (simp add: sorted_wrt_map toITopic_def)
qed

theorem C6_sorted_by_dateline_desc_witness:
  "snd (fetchTopicList (\<lambda>_. [1]) () group 3 \<lparr>limit = None, offset = None\<rparr> ties_db)
     = Inr (3, [toITopic topic_newer, toITopic topic_tie_2, toITopic topic_tie_1])
   \<and> sorted_wrt (\<lambda>a b. itopic_createdAt b \<le> itopic_createdAt a)
       [toITopic topic_newer, toITopic topic_tie_2, toITopic topic_tie_1]"
proof -
  have h: "snd (fetchTopicList (\<lambda>_. [1]) () group 3 \<lparr>limit = None, offset = None\<rparr> ties_db)
     = Inr (3, [toITopic topic_newer, toITopic topic_tie_2, toITopic topic_tie_1])"
    by (simp add: fetchTopicList_def GroupTopicRepo_find_def GroupTopicRepo_count_def
      order_dateline_desc_def ties_db_def topic_tie_1_def topic_tie_2_def topic_newer_def
      toITopic_def Let_def)
  from h C6_sorted_by_dateline_desc [OF h] show ?thesis by (rule conjI)
qed

subsection \<open>C7\<close>

text \<open>
  C7, as stated: a negative offset or limit is rejected with a validation error before any
  store access. With offset -1, and with limit -1, the function has counted and queried
  the store by the time it returns, and the query carried the negative value.
\<close>

theorem C7_negative_page_reaches_store:
  "fst (fetchTopicList (\<lambda>_. [1]) () group 3 \<lparr>limit = Some 30, offset = Some (- 1)\<rparr> ties_db)
     = [TopicCount 3 [1], TopicFind 3 [1] (- 1) 30]
   \<and> fst (fetchTopicList (\<lambda>_. [1]) () group 3 \<lparr>limit = Some (- 1), offset = Some 0\<rparr> ties_db)
     = [TopicCount 3 [1], TopicFind 3 [1] 0 (- 1)]"
  by (simp add: fetchTopicList_def GroupTopicRepo_find_def Let_def)

text \<open>
  C7, amended: the only request that \<^verbatim>\<open>fetchTopicList\<close> rejects before any store access is
  one for a topic type other than group (Unimplemented). For group it performs the count
  and the query whatever the offset and the limit are, and hands the store the offset as
  skip and the limit as take exactly as given (0 and 30 when absent), negative ones
  included; what it returns is the count and the store's answer to that query, or the
  store's error.
\<close>

theorem C7_store_calls:
  "fetchTopicList ListTopicDisplays auth subject i page db = ([], Inl UnimplementedError)
   \<and> fetchTopicList ListTopicDisplays auth group i \<lparr>limit = lm, offset = os\<rparr> db =
       ([TopicCount i (ListTopicDisplays auth),
         TopicFind i (ListTopicDisplays auth)
           (case os of None \<Rightarrow> 0 | Some k \<Rightarrow> k) (case lm of None \<Rightarrow> 30 | Some l \<Rightarrow> l)],
        map_sum id
          (\<lambda>topics.
             (GroupTopicRepo_count
                (\<lambda>t. topic_gid t = i \<and> topic_display t \<in> set (ListTopicDisplays auth)) db,
              map toITopic topics))
          (GroupTopicRepo_find
             (\<lambda>t. topic_gid t = i \<and> topic_display t \<in> set (ListTopicDisplays auth))
             (case os of None \<Rightarrow> 0 | Some k \<Rightarrow> k) (case lm of None \<Rightarrow> 30 | Some l \<Rightarrow> l) db))"
  by (simp add: fetchTopicList_def Let_def split: sum.splits)

subsection \<open>C8\<close>

text \<open>
  C8: \<^verbatim>\<open>fetchDetail\<close> returns \<^verbatim>\<open>null\<close> exactly when no topic has the id or the visibility
  policy denies the actor the content of the topic; both causes give the same result, and
  a denial never gives an error.
\<close>

theorem C8_null_for_missing_or_denied:
  "fetchDetail cv f auth i db = Inr None
     \<longleftrightarrow> (GroupTopicRepo_findOne i db = None
          \<or> (\<exists>topic. GroupTopicRepo_findOne i db = Some topic \<and> \<not> cv auth topic))"
  by (auto simp add: fetchDetail_def Let_def split: option.splits list.splits)

theorem C8_null_for_missing_or_denied_witness:
  "GroupTopicRepo_findOne 11 sample_db = None
   \<and> fetchDetail normal_only blank_all () 11 sample_db = Inr None
   \<and> GroupTopicRepo_findOne 10 sample_db = Some topic_banned
   \<and> \<not> normal_only () topic_banned
   \<and> fetchDetail normal_only blank_all () 10 sample_db = Inr None"
proof -
  have a: "GroupTopicRepo_findOne 11 sample_db = None"
    by (simp add: GroupTopicRepo_findOne_def sample_defs)
  have b: "GroupTopicRepo_findOne 10 sample_db = Some topic_banned"
    by (simp add: GroupTopicRepo_findOne_def sample_defs)
  have c: "\<not> normal_only () topic_banned"
    by (simp add: normal_only_def topic_banned_def)
  have "fetchDetail normal_only blank_all () 11 sample_db = Inr None"
    using a by (simp only: C8_null_for_missing_or_denied) simp
  moreover have "fetchDetail normal_only blank_all () 10 sample_db = Inr None"
    using b c by (simp only: C8_null_for_missing_or_denied) simp
  ultimately show ?thesis using a b c by simp
qed

subsection \<open>C9\<close>

text \<open>
  C9, as stated: for every input the result is a value at most the event time. When the
  event time lies more than 360 seconds before the dateline of an eligible topic, the
  base of the power is negative and the result is NaN, which is not at most anything
  (shown here on the arithmetic without rounding; \<open>scored_before_dateline\<close> gives NaN on
  this input in every arithmetic that is \<open>double_like\<close>).
\<close>

theorem C9_result_can_be_NaN:
  "scoredUpdateTime exact_arith 0 group topic_364 = NaN"
  by (rule scored_before_dateline [OF exact_arith_double_like]) (simp_all add: topic_364_def)

text \<open>
  C9, amended: whenever the input does not take the decay branch, or takes it with an
  event time no earlier than 360 seconds before the dateline, the result is an integer
  and it is at most the event time.
\<close>

theorem C9_result_le_event_time:
  assumes dl: "double_like A"
    and "type = group \<and> topic_id t = 364 \<and> 0 < topic_replies t
             \<longrightarrow> topic_dateline t - 360 \<le> timestamp"
  shows "\<exists>v. scoredUpdateTime A timestamp type t = Num v \<and> v \<le> timestamp"
proof (cases "type = group \<and> topic_id t = 364 \<and> 0 < topic_replies t")
  case True
  define d where "d = real_of_int (timestamp - topic_dateline t)"
  from True assms(2) have "topic_dateline t - 360 \<le> timestamp" by simp
  then have "- 360 \<le> d" unfolding d_def by simp
  then have "- (1 / 10) \<le> d / 3600" by simp
  then have "fl A (- (1 / 10)) \<le> fl A (d / 3600)"
    by (rule fl_mono [OF dl])
  moreover have "fl A (- (1 / 10)) = - fl A (1 / 10)"
    using dl unfolding double_like_def by blast
  moreover have "fdiv A d 3600 = fl A (d / 3600)"
    by (rule fdiv_fl [OF dl]) simp
  ultimately have "0 \<le> fdiv A d 3600 + fl A (1 / 10)" by simp
  then have "fl A 0 \<le> fl A (fdiv A d 3600 + fl A (1 / 10))"
    by (rule fl_mono [OF dl])
  then have "0 \<le> fl A (fdiv A d 3600 + fl A (1 / 10))"
    by (simp add: fl_zero [OF dl])
  with dl obtain pw where
    "Math_pow A (fl A (fdiv A d 3600 + fl A (1 / 10))) (fl A (9 / 5)) = Some pw"
    unfolding double_like_def by blast
  with True show ?thesis
    by (simp add: scoredUpdateTime_def Let_def d_def)
next
  case False
  then show ?thesis by (auto simp add: scoredUpdateTime_def)
qed

theorem C9_result_le_event_time_witness:
  "double_like exact_arith
   \<and> topic_dateline topic_364 - 360 \<le> 4600
   \<and> (\<exists>v. scoredUpdateTime exact_arith 4600 group topic_364 = Num v \<and> v \<le> 4600)"
proof -
  have d: "topic_dateline topic_364 - 360 \<le> 4600"
    by (simp add: topic_364_def)
  then have h: "group = group \<and> topic_id topic_364 = 364 \<and> 0 < topic_replies topic_364
          \<longrightarrow> topic_dateline topic_364 - 360 \<le> 4600"
    by simp
  from exact_arith_double_like d C9_result_le_event_time [OF exact_arith_double_like h]
  show ?thesis by (intro conjI)
qed

subsection \<open>C10\<close>

text \<open>
  C10: for every actor whom the visibility policy lets view an existing topic with posts,
  whatever the redaction \<open>f\<close> is, the thread is rendered and its text, creator and creation
  time are those of the first post of the topic as stored; the redaction is applied to
  the top-level replies, each carrying its sub-replies, and to nothing else.
\<close>

theorem C10_top_post_as_stored:
  assumes "GroupTopicRepo_findOne i db = Some topic"
    and "cv auth topic"
    and "GroupPostRepo_find (topic_id topic) db = top' # rest"
  shows "\<exists>d. fetchDetail cv f auth i db = Inr (Some d)
           \<and> details_text d = post_content top'
           \<and> details_creatorID d = post_uid top'
           \<and> details_createdAt d = post_dateline top'
           \<and> details_replies d =
               map f (map (toReply (fold addSubReply
                                      (filter (\<lambda>x. post_related x \<noteq> 0) rest) Map.empty))
                        (filter (\<lambda>x. post_related x = 0) rest))"
  using assms by (simp add: fetchDetail_def Let_def)

theorem C10_top_post_as_stored_witness:
  "GroupTopicRepo_findOne 364 sample_db = Some topic_364
   \<and> normal_only () topic_364
   \<and> GroupPostRepo_find (topic_id topic_364) sample_db = hd thread_posts # tl thread_posts
   \<and> (\<exists>d. fetchDetail normal_only blank_all () 364 sample_db = Inr (Some d)
          \<and> details_text d = ''top'' \<and> details_creatorID d = 41)"
proof -
  have t: "GroupTopicRepo_findOne 364 sample_db = Some topic_364"
    using sample_thread by simp
  have v: "normal_only () topic_364"
    using sample_thread by simp
  have p: "GroupPostRepo_find (topic_id topic_364) sample_db = hd thread_posts # tl thread_posts"
    using sample_thread by simp
  from C10_top_post_as_stored [where cv = normal_only and auth = "()" and f = blank_all, OF t v p]
  obtain d where
    d: "fetchDetail normal_only blank_all () 364 sample_db = Inr (Some d)"
      "details_text d = post_content (hd thread_posts)"
      "details_creatorID d = post_uid (hd thread_posts)"
    by blast
  from d(2,3) have "details_text d = ''top'' \<and> details_creatorID d = 41"
    by (simp add: thread_posts_def mk_post_def)
  with d(1) have "\<exists>d. fetchDetail normal_only blank_all () 364 sample_db = Inr (Some d)
          \<and> details_text d = ''top'' \<and> details_creatorID d = 41"
    by blast
  with t v p show ?thesis by (intro conjI)
qed

end
